theory Spec2Isabelle
  imports Complex_Main "HOL-Library.Word"
begin

section \<open>JavaScript values as the handlers see them\<close>

text \<open>
  The relays and the browser client of the Munster Irish coach pass JSON values around
  and test them with JavaScript's own operators. A value is one of the JSON shapes or
  \<open>undefined\<close>. Numbers stand for the doubles \<open>JSON.parse\<close> yields (zero is the only
  falsy one among them); a string is a list of characters; an object is the list of its
  own properties, each key once.
\<close>

type_synonym byte = "8 word"

datatype jsval =
    JUndefined
  | JNull
  | JBool bool
  | JNum real
  | JStr string
  | JArr "jsval list"
  | JObj "(string \<times> jsval) list"

text \<open>A thrown \<open>Error\<close>: its class and its \<open>message\<close>.\<close>

datatype js_error = TypeError string | SyntaxError string | Error string

fun message_of :: "js_error \<Rightarrow> string" where
  "message_of (TypeError m) = m"
| "message_of (SyntaxError m) = m"
| "message_of (Error m) = m"

text \<open>\<open>!v\<close> is \<open>\<not> truthy v\<close>.\<close>

fun truthy :: "jsval \<Rightarrow> bool" where
  "truthy JUndefined = False"
| "truthy JNull = False"
| "truthy (JBool b) = b"
| "truthy (JNum x) = (x \<noteq> 0)"
| "truthy (JStr s) = (s \<noteq> [])"
| "truthy (JArr xs) = True"
| "truthy (JObj kvs) = True"

text \<open>\<open>a || b\<close>\<close>

definition or_else :: "jsval \<Rightarrow> jsval \<Rightarrow> jsval" where
  "or_else a b = (if truthy a then a else b)"

definition nullish :: "jsval \<Rightarrow> bool" where
  "nullish v = (v = JUndefined \<or> v = JNull)"

definition cannot_read :: "string \<Rightarrow> string \<Rightarrow> js_error" where
  "cannot_read what k =
     TypeError (''Cannot read properties of '' @ what @ '' (reading '' @ [CHR 0x27] @ k @ [CHR 0x27] @ '')'')"

text \<open>
  \<open>v.k\<close> for a key \<open>k\<close> that no built-in prototype defines (every key the code reads:
  \<open>audio\<close>, \<open>text\<close>, \<open>combinedPhrases\<close>, \<open>phrases\<close>, \<open>locale\<close>, \<open>content\<close>,
  \<open>message\<close>, \<open>message_spoken\<close>, \<open>words\<close>, \<open>suggestions\<close>). Reading a property of
  \<open>null\<close> or \<open>undefined\<close> throws; a primitive, an array and an object without the key
  give \<open>undefined\<close>.
\<close>

fun get_prop :: "jsval \<Rightarrow> string \<Rightarrow> js_error + jsval" where
  "get_prop JUndefined k = Inl (cannot_read ''undefined'' k)"
| "get_prop JNull k = Inl (cannot_read ''null'' k)"
| "get_prop (JObj kvs) k = Inr (case map_of kvs k of None \<Rightarrow> JUndefined | Some v \<Rightarrow> v)"
| "get_prop v k = Inr JUndefined"

text \<open>\<open>v?.k\<close>: \<open>undefined\<close> on \<open>null\<close> and \<open>undefined\<close>, never throws.\<close>

definition opt_prop :: "jsval \<Rightarrow> string \<Rightarrow> jsval" where
  "opt_prop v k = (case get_prop v k of Inl e \<Rightarrow> JUndefined | Inr x \<Rightarrow> x)"

text \<open>\<open>v?.[0]\<close>: the first element of an array, the first character of a string, the
  property \<open>"0"\<close> of an object.\<close>

fun opt_index0 :: "jsval \<Rightarrow> jsval" where
  "opt_index0 (JArr xs) = (case xs of [] \<Rightarrow> JUndefined | x # _ \<Rightarrow> x)"
| "opt_index0 (JStr s) = (case s of [] \<Rightarrow> JUndefined | c # _ \<Rightarrow> JStr [c])"
| "opt_index0 (JObj kvs) = (case map_of kvs ''0'' of None \<Rightarrow> JUndefined | Some v \<Rightarrow> v)"
| "opt_index0 v = JUndefined"

definition err_obj :: "jsval \<Rightarrow> jsval" where
  "err_obj v = JObj [(''error'', v)]"

section \<open>Requests, responses and the platform\<close>

text \<open>The incoming request: \<open>req.method\<close> and \<open>req.body\<close> as the body parser left it
  (\<open>undefined\<close> when there is none).\<close>

record request =
  req_method :: string
  req_body :: jsval

text \<open>\<open>process.env\<close>: a variable is a string or absent (\<open>undefined\<close>).\<close>

type_synonym env = "string \<Rightarrow> string option"

text \<open>\<open>!v\<close> is \<open>\<not> present v\<close> for a value read from the environment.\<close>

definition present :: "string option \<Rightarrow> bool" where
  "present v = (case v of None \<Rightarrow> False | Some s \<Rightarrow> s \<noteq> [])"

text \<open>The value inside a template literal, and as \<open>fetch\<close> writes a header.\<close>

definition interpolate :: "string option \<Rightarrow> string" where
  "interpolate v = (case v of None \<Rightarrow> ''undefined'' | Some s \<Rightarrow> s)"

text \<open>What a handler writes to \<open>res\<close>.\<close>

datatype res_body =
    Json jsval
  | Buffer "byte list"
  | End

record response =
  res_status :: nat
  res_headers :: "(string \<times> string) list"
  res_body :: res_body

text \<open>A part of a multipart form (\<open>form.append\<close>).\<close>

datatype form_part =
    FilePart string "byte list" string string
  | FieldPart string jsval

text \<open>
  The body handed to \<open>fetch\<close>: \<open>JSON.stringify v\<close>, the form read into one buffer, or the
  form object of the \<open>form-data\<close> package itself.
\<close>

datatype fetch_body =
    Stringified jsval
  | FormStream "form_part list"
  | FormBuffer "form_part list"

text \<open>
  What \<open>fetch\<close> puts on the wire for such a body: the JSON text, the multipart
  serialisation of the buffered form, and, for the form object, not its parts: the
  runtime's \<open>fetch\<close> does not read a \<open>form-data\<close> stream (the comment in
  \<open>api/transcribe.js\<close> before the form is read into a buffer says so) and sends the
  object as the text \<open>[object FormData]\<close>.
\<close>

datatype wire_body =
    JsonText jsval
  | Multipart "form_part list"
  | PlainText string

fun transmitted :: "fetch_body \<Rightarrow> wire_body" where
  "transmitted (Stringified v) = JsonText v"
| "transmitted (FormBuffer parts) = Multipart parts"
| "transmitted (FormStream parts) = PlainText ''[object FormData]''"

record fetch_request =
  f_url :: string
  f_method :: string
  f_headers :: "(string \<times> string option) list"
  f_body :: fetch_body

text \<open>
  The provider's answer as the handler reads it: the status, and the body read as JSON
  (\<open>response.json()\<close> throws on a body that is not JSON), as text, or as bytes.
\<close>

record fetch_response =
  r_status :: nat
  r_json :: "js_error + jsval"
  r_text :: string
  r_arrayBuffer :: "byte list"

text \<open>\<open>response.ok\<close>\<close>

definition r_ok :: "fetch_response \<Rightarrow> bool" where
  "r_ok r = (200 \<le> r_status r \<and> r_status r \<le> 299)"

text \<open>The Azure Speech SDK: what the recogniser is configured with, and how it answers.\<close>

record sdk_request =
  sdk_key :: "string option"
  sdk_region :: "string option"
  sdk_profanity :: string
  sdk_languages :: "string list"
  sdk_audio :: "byte list"

datatype sdk_outcome =
    RecognizedSpeech string "string option"
  | NoMatch
  | Canceled "string option"
  | OtherReason
  | RecognitionError string
  | SdkThrows js_error

datatype provider_call =
    Fetch fetch_request
  | Recognize sdk_request

text \<open>
  What the runtime and the providers supply: \<open>fetch\<close> (rejects or resolves),
  \<open>Buffer.from(s, 'base64')\<close> (total on strings; on another value it throws or reads
  the value as bytes), the boundary of a new \<open>FormData\<close>, and the recogniser.
\<close>

record platform =
  fetch :: "fetch_request \<Rightarrow> js_error + fetch_response"
  base64_decode :: "string \<Rightarrow> byte list"
  buffer_from_other :: "jsval \<Rightarrow> js_error + byte list"
  form_boundary :: string
  recognizeOnce :: "sdk_request \<Rightarrow> sdk_outcome"

definition Buffer_from_base64 :: "platform \<Rightarrow> jsval \<Rightarrow> js_error + byte list" where
  "Buffer_from_base64 p v =
     (case v of JStr s \<Rightarrow> Inr (base64_decode p s) | _ \<Rightarrow> buffer_from_other p v)"

text \<open>A handler's run: the response it wrote and the provider calls it made, in order.\<close>

type_synonym run = "response \<times> provider_call list"

definition json_response :: "nat \<Rightarrow> (string \<times> string) list \<Rightarrow> jsval \<Rightarrow> response" where
  "json_response st hs v = \<lparr>res_status = st, res_headers = hs, res_body = Json v\<rparr>"

text \<open>
  \<open>const { k } = v\<close>: destructuring \<open>null\<close> or \<open>undefined\<close> throws, anything else
  reads the property.
\<close>

definition cannot_destructure :: "string \<Rightarrow> string \<Rightarrow> js_error" where
  "cannot_destructure what k =
     TypeError (''Cannot destructure property '' @ [CHR 0x27] @ k @ [CHR 0x27] @
                '' of '' @ [CHR 0x27] @ ''req.body'' @ [CHR 0x27] @ '' as it is '' @ what @ ''.'')"

definition destructure :: "jsval \<Rightarrow> string \<Rightarrow> js_error + jsval" where
  "destructure v k =
     (case v of
        JUndefined \<Rightarrow> Inl (cannot_destructure ''undefined'' k)
      | JNull \<Rightarrow> Inl (cannot_destructure ''null'' k)
      | _ \<Rightarrow> get_prop v k)"

section \<open>The speech-synthesis relay\<close>

text \<open>
  \<open>api/speak.js\<close> (the serverless handler) and \<open>app.post('/api/speak')\<close> (the local
  server) make the same outbound call and share the text of the \<open>try\<close> block; the first
  also gates the method. In the \<open>try\<close> block an exception is \<open>Inl\<close>, and the calls
  already made stay in the run.
\<close>

definition speak_request :: "env \<Rightarrow> jsval \<Rightarrow> fetch_request" where
  "speak_request e text =
     \<lparr>f_url = ''https://api.elevenlabs.io/v1/text-to-speech/4AgX6Piqqh5KT4pSisZQ'',
      f_method = ''POST'',
      f_headers = [(''Content-Type'', Some ''application/json''),
                   (''xi-api-key'', e ''ELEVENLABS_API_KEY'')],
      f_body = Stringified (JObj [(''text'', text),
                                  (''model_id'', JStr ''eleven_flash_v2_5''),
                                  (''voice_settings'',
                                     JObj [(''stability'', JNum 0.5),
                                           (''similarity_boost'', JNum 0.75)])])\<rparr>"

definition audio_response :: "byte list \<Rightarrow> response" where
  "audio_response bytes =
     \<lparr>res_status = 200, res_headers = [(''Content-Type'', ''audio/mpeg'')], res_body = Buffer bytes\<rparr>"

definition speak_try :: "env \<Rightarrow> platform \<Rightarrow> request \<Rightarrow> (js_error + response) \<times> provider_call list" where
  "speak_try e p req =
     (case destructure (req_body req) ''text'' of
        Inl ex \<Rightarrow> (Inl ex, [])
      | Inr text \<Rightarrow>
          (let call = speak_request e text in
           case fetch p call of
             Inl ex \<Rightarrow> (Inl ex, [Fetch call])
           | Inr response \<Rightarrow>
               if \<not> r_ok response then
                 (case r_json response of
                    Inl ex \<Rightarrow> (Inl ex, [Fetch call])
                  | Inr err \<Rightarrow> (Inr (json_response 500 [] (err_obj err)), [Fetch call]))
               else (Inr (audio_response (r_arrayBuffer response)), [Fetch call])))"

definition voice_failed :: response where
  "voice_failed = json_response 500 [] (err_obj (JStr ''Voice failed''))"

definition method_not_allowed :: "(string \<times> string) list \<Rightarrow> response" where
  "method_not_allowed hs = json_response 405 hs (err_obj (JStr ''Method not allowed''))"

definition speak_handler :: "env \<Rightarrow> platform \<Rightarrow> request \<Rightarrow> run" where
  "speak_handler e p req =
     (if req_method req \<noteq> ''POST'' then (method_not_allowed [], [])
      else case speak_try e p req of
             (Inl ex, calls) \<Rightarrow> (voice_failed, calls)
           | (Inr res, calls) \<Rightarrow> (res, calls))"

text \<open>The local server registers its routes with \<open>app.post\<close>: the callbacks below run for
  POST requests only, and gate nothing themselves.\<close>

definition express_speak :: "env \<Rightarrow> platform \<Rightarrow> request \<Rightarrow> run" where
  "express_speak e p req =
     (case speak_try e p req of
        (Inl ex, calls) \<Rightarrow> (voice_failed, calls)
      | (Inr res, calls) \<Rightarrow> (res, calls))"

section \<open>The chat relay\<close>

definition chat_request :: "env \<Rightarrow> jsval \<Rightarrow> fetch_request" where
  "chat_request e body =
     \<lparr>f_url = ''https://api.anthropic.com/v1/messages'',
      f_method = ''POST'',
      f_headers = [(''Content-Type'', Some ''application/json''),
                   (''x-api-key'', e ''ANTHROPIC_API_KEY''),
                   (''anthropic-version'', Some ''2023-06-01'')],
      f_body = Stringified body\<rparr>"

definition something_went_wrong :: response where
  "something_went_wrong = json_response 500 [] (err_obj (JStr ''Something went wrong''))"

text \<open>The \<open>try\<close> block of \<open>app.post('/api/chat')\<close>. \<open>res.json(data)\<close> sets no status:
  the response goes out with 200.\<close>

definition chat_try :: "env \<Rightarrow> platform \<Rightarrow> request \<Rightarrow> (js_error + response) \<times> provider_call list" where
  "chat_try e p req =
     (let call = chat_request e (req_body req) in
      case fetch p call of
        Inl ex \<Rightarrow> (Inl ex, [Fetch call])
      | Inr response \<Rightarrow>
          (case r_json response of
             Inl ex \<Rightarrow> (Inl ex, [Fetch call])
           | Inr data \<Rightarrow> (Inr (json_response 200 [] data), [Fetch call])))"

definition express_chat :: "env \<Rightarrow> platform \<Rightarrow> request \<Rightarrow> run" where
  "express_chat e p req =
     (case chat_try e p req of
        (Inl ex, calls) \<Rightarrow> (something_went_wrong, calls)
      | (Inr res, calls) \<Rightarrow> (res, calls))"

section \<open>The transcription relay\<close>

definition not_configured :: string where
  "not_configured = ''Azure Speech not configured. Add AZURE_SPEECH_KEY and AZURE_SPEECH_REGION to Vercel environment variables.''"

definition no_audio :: string where
  \<open>no_audio = ''No audio data received. Expected JSON with "audio" field.''\<close>

text \<open>The \<open>catch\<close> of every transcription handler.\<close>

definition transcription_failed :: "(string \<times> string) list \<Rightarrow> js_error \<Rightarrow> response" where
  "transcription_failed hs ex =
     json_response 500 hs
       (err_obj (JStr (''Transcription failed: '' @
                       (if message_of ex \<noteq> [] then message_of ex else ''Unknown error''))))"

definition cors_headers :: "(string \<times> string) list" where
  "cors_headers = [(''Access-Control-Allow-Origin'', ''*''),
                   (''Access-Control-Allow-Methods'', ''POST, OPTIONS''),
                   (''Access-Control-Allow-Headers'', ''Content-Type'')]"

definition azure_endpoint :: "string option \<Rightarrow> string" where
  "azure_endpoint speechRegion =
     ''https://'' @ interpolate speechRegion @ ''.api.cognitive.microsoft.com'' @
     ''/speechtotext/transcriptions:transcribe?api-version=2024-11-15''"

text \<open>The \<open>definition\<close> part of the form: \<open>api/transcribe.js\<close> as it stands, and the
  earlier REST variant.\<close>

definition definition_current :: jsval where
  "definition_current =
     JObj [(''locales'', JArr [JStr ''en-IE'']),
           (''languageIdentification'',
              JObj [(''candidateLocales'', JArr [JStr ''en-IE'', JStr ''ga-IE''])])]"

definition definition_earlier :: jsval where
  "definition_earlier = JObj [(''locales'', JArr [JStr ''ga-IE'', JStr ''en-IE''])]"

definition transcribe_form :: "byte list \<Rightarrow> jsval \<Rightarrow> form_part list" where
  "transcribe_form audioBuffer defn =
     [FilePart ''audio'' audioBuffer ''recording.m4a'' ''audio/mp4'',
      FieldPart ''definition'' defn]"

definition azure_request ::
  "platform \<Rightarrow> string option \<Rightarrow> string option \<Rightarrow> fetch_body \<Rightarrow> fetch_request" where
  "azure_request p speechKey speechRegion body =
     \<lparr>f_url = azure_endpoint speechRegion,
      f_method = ''POST'',
      f_headers = [(''Ocp-Apim-Subscription-Key'', speechKey),
                   (''content-type'', Some (''multipart/form-data; boundary='' @ form_boundary p))],
      f_body = body\<rparr>"

text \<open>\<open>{ text: result.combinedPhrases?.[0]?.text || '', language: result.phrases?.[0]?.locale || '' }\<close>\<close>

definition extract_transcript :: "jsval \<Rightarrow> js_error + jsval" where
  "extract_transcript result =
     (case get_prop result ''combinedPhrases'' of
        Inl ex \<Rightarrow> Inl ex
      | Inr combinedPhrases \<Rightarrow>
          (let fullText = or_else (opt_prop (opt_index0 combinedPhrases) ''text'') (JStr []) in
           case get_prop result ''phrases'' of
             Inl ex \<Rightarrow> Inl ex
           | Inr phrases \<Rightarrow>
               (let detectedLang = or_else (opt_prop (opt_index0 phrases) ''locale'') (JStr [])
                in Inr (JObj [(''text'', fullText), (''language'', detectedLang)]))))"

text \<open>
  The \<open>try\<close> block of the two REST handlers. They differ in the \<open>definition\<close> part and
  in what is handed to \<open>fetch\<close> (\<open>mk_body\<close>: the form read into a buffer in
  \<open>api/transcribe.js\<close>, the form object itself in the earlier variant, which \<open>fetch\<close>
  does not transmit as a form); the rest is the same text. The form holds a buffer and a
  string, and reading it into one buffer is taken not to fail.
\<close>

definition rest_try ::
  "jsval \<Rightarrow> (form_part list \<Rightarrow> fetch_body) \<Rightarrow> env \<Rightarrow> platform \<Rightarrow> request
     \<Rightarrow> (js_error + response) \<times> provider_call list" where
  "rest_try defn mk_body e p req =
     (let speechKey = e ''AZURE_SPEECH_KEY''; speechRegion = e ''AZURE_SPEECH_REGION'' in
      if \<not> present speechKey \<or> \<not> present speechRegion
      then (Inr (json_response 500 cors_headers (err_obj (JStr not_configured))), [])
      else
        case destructure (or_else (req_body req) (JObj [])) ''audio'' of
          Inl ex \<Rightarrow> (Inl ex, [])
        | Inr audio \<Rightarrow>
            if \<not> truthy audio
            then (Inr (json_response 400 cors_headers (err_obj (JStr no_audio))), [])
            else
              case Buffer_from_base64 p audio of
                Inl ex \<Rightarrow> (Inl ex, [])
              | Inr audioBuffer \<Rightarrow>
                  (let call = azure_request p speechKey speechRegion
                                (mk_body (transcribe_form audioBuffer defn)) in
                   case fetch p call of
                     Inl ex \<Rightarrow> (Inl ex, [Fetch call])
                   | Inr azureResponse \<Rightarrow>
                       if \<not> r_ok azureResponse
                       then (Inr (json_response 502 cors_headers
                                    (err_obj (JStr (''Azure transcription failed: '' @ r_text azureResponse)))),
                             [Fetch call])
                       else
                         case r_json azureResponse of
                           Inl ex \<Rightarrow> (Inl ex, [Fetch call])
                         | Inr result \<Rightarrow>
                             (case extract_transcript result of
                                Inl ex \<Rightarrow> (Inl ex, [Fetch call])
                              | Inr transcript \<Rightarrow>
                                  (Inr (json_response 200 cors_headers transcript), [Fetch call]))))"

definition rest_handler ::
  "jsval \<Rightarrow> (form_part list \<Rightarrow> fetch_body) \<Rightarrow> env \<Rightarrow> platform \<Rightarrow> request \<Rightarrow> run" where
  "rest_handler defn mk_body e p req =
     (if req_method req = ''OPTIONS''
      then (\<lparr>res_status = 200, res_headers = cors_headers, res_body = End\<rparr>, [])
      else if req_method req \<noteq> ''POST'' then (method_not_allowed cors_headers, [])
      else case rest_try defn mk_body e p req of
             (Inl ex, calls) \<Rightarrow> (transcription_failed cors_headers ex, calls)
           | (Inr res, calls) \<Rightarrow> (res, calls))"

text \<open>\<open>api/transcribe.js\<close>\<close>

definition transcribe_handler :: "env \<Rightarrow> platform \<Rightarrow> request \<Rightarrow> run" where
  "transcribe_handler = rest_handler definition_current FormBuffer"

text \<open>The earlier REST variant of \<open>api/transcribe.js\<close>.\<close>

definition transcribe_rest_earlier :: "env \<Rightarrow> platform \<Rightarrow> request \<Rightarrow> run" where
  "transcribe_rest_earlier = rest_handler definition_earlier FormStream"

text \<open>The SDK variant of \<open>api/transcribe.js\<close>: no CORS headers, no OPTIONS branch, and
  the recogniser in place of \<open>fetch\<close>.\<close>

definition empty_transcript :: jsval where
  "empty_transcript = JObj [(''text'', JStr []), (''language'', JStr [])]"

definition sdk_try :: "env \<Rightarrow> platform \<Rightarrow> request \<Rightarrow> (js_error + response) \<times> provider_call list" where
  "sdk_try e p req =
     (let speechKey = e ''AZURE_SPEECH_KEY''; speechRegion = e ''AZURE_SPEECH_REGION'' in
      if \<not> present speechKey \<or> \<not> present speechRegion
      then (Inr (json_response 500 [] (err_obj (JStr not_configured))), [])
      else
        case destructure (or_else (req_body req) (JObj [])) ''audio'' of
          Inl ex \<Rightarrow> (Inl ex, [])
        | Inr audio \<Rightarrow>
            if \<not> truthy audio
            then (Inr (json_response 400 [] (err_obj (JStr no_audio))), [])
            else
              case Buffer_from_base64 p audio of
                Inl ex \<Rightarrow> (Inl ex, [])
              | Inr audioBuffer \<Rightarrow>
                  (let call = \<lparr>sdk_key = speechKey, sdk_region = speechRegion,
                               sdk_profanity = ''Raw'', sdk_languages = [''ga-IE'', ''en-IE''],
                               sdk_audio = audioBuffer\<rparr> in
                   case recognizeOnce p call of
                     RecognizedSpeech text language \<Rightarrow>
                       (Inr (json_response 200 []
                               (JObj [(''text'', JStr text),
                                      (''language'', JStr (if present language then interpolate language
                                                           else ''unknown''))])),
                        [Recognize call])
                   | NoMatch \<Rightarrow> (Inr (json_response 200 [] empty_transcript), [Recognize call])
                   | Canceled errorDetails \<Rightarrow>
                       (Inl (Error (if present errorDetails then interpolate errorDetails
                                    else ''Recognition canceled'')),
                        [Recognize call])
                   | OtherReason \<Rightarrow> (Inr (json_response 200 [] empty_transcript), [Recognize call])
                   | RecognitionError error \<Rightarrow> (Inl (Error error), [Recognize call])
                   | SdkThrows ex \<Rightarrow> (Inl ex, [Recognize call])))"

definition transcribe_sdk :: "env \<Rightarrow> platform \<Rightarrow> request \<Rightarrow> run" where
  "transcribe_sdk e p req =
     (if req_method req \<noteq> ''POST'' then (method_not_allowed [], [])
      else case sdk_try e p req of
             (Inl ex, calls) \<Rightarrow> (transcription_failed [] ex, calls)
           | (Inr res, calls) \<Rightarrow> (res, calls))"

section \<open>The browser client\<close>

text \<open>
  \<open>raw.match(/\{[\s\S]*\}/)\<close>: the leftmost match starts at the first opening brace, and
  the greedy star runs to the last closing brace after it. There is no match when no
  closing brace follows the first opening one.
\<close>

definition match_braces :: "string \<Rightarrow> string option" where
  "match_braces raw =
     (let from_open = dropWhile (\<lambda>c. c \<noteq> CHR ''{'') raw in
      if from_open = [] then None
      else
        let back = dropWhile (\<lambda>c. c \<noteq> CHR ''}'') (rev (tl from_open)) in
        if back = [] then None else Some (CHR ''{'' # rev back))"

text \<open>The object of the inner \<open>catch\<close>: \<open>{message: raw, words: [], suggestions: []}\<close>.\<close>

definition fallback :: "jsval \<Rightarrow> jsval" where
  "fallback raw = JObj [(''message'', raw), (''words'', JArr []), (''suggestions'', JArr [])]"

text \<open>
  The inner \<open>try\<close>/\<open>catch\<close> of \<open>callClaude\<close>, with \<open>JSON.parse\<close> as the runtime supplies
  it. On a \<open>raw\<close> that is not a string, \<open>raw.match\<close> is not a function and the call
  throws inside the \<open>try\<close>.
\<close>

definition parse_turn :: "(string \<Rightarrow> js_error + jsval) \<Rightarrow> jsval \<Rightarrow> jsval" where
  "parse_turn JSON_parse raw =
     (case raw of
        JStr s \<Rightarrow>
          (case JSON_parse (case match_braces s of Some m \<Rightarrow> m | None \<Rightarrow> s) of
             Inl ex \<Rightarrow> fallback raw
           | Inr parsed \<Rightarrow> parsed)
      | _ \<Rightarrow> fallback raw)"

text \<open>A message of the conversation view, and a turn of the history sent to the model.\<close>

record msg =
  m_role :: string
  m_text :: jsval
  m_words :: jsval

record turn =
  t_role :: string
  t_content :: jsval

text \<open>The body of a call to \<open>/api/chat\<close>.\<close>

record chat_call =
  c_model :: string
  c_max_tokens :: nat
  c_system :: string
  c_messages :: "turn list"

text \<open>
  The state of \<open>App\<close>: the \<open>useState\<close> cells and the \<open>history\<close> ref, and three
  observations of its effects: the chat calls issued so far, how many of them have not
  settled yet, and the texts handed to \<open>speak\<close> by the timer.
\<close>

record app =
  messages :: "msg list"
  input :: string
  loading :: bool
  suggestions :: jsval
  started :: bool
  authenticated :: bool
  password :: string
  error :: "string option"
  speaking :: bool
  history :: "turn list"
  chat_calls :: "chat_call list"
  in_flight :: nat
  spoken :: "jsval list"

definition initial :: app where
  "initial =
     \<lparr>messages = [], input = [], loading = False, suggestions = JArr [], started = False,
      authenticated = False, password = [], error = None, speaking = False, history = [],
      chat_calls = [], in_flight = 0, spoken = []\<rparr>"

text \<open>\<open>String.prototype.trim\<close> on the white space a one-byte character can be.\<close>

definition js_space :: "char \<Rightarrow> bool" where
  "js_space c = (c \<in> set [CHR 0x09, CHR 0x0A, CHR 0x0B, CHR 0x0C, CHR 0x0D, CHR 0x20, CHR 0xA0])"

definition trim :: "string \<Rightarrow> string" where
  "trim s = rev (dropWhile js_space (rev (dropWhile js_space s)))"

definition stopSpeaking :: "app \<Rightarrow> app" where
  "stopSpeaking st = st\<lparr>speaking := False\<rparr>"

text \<open>
  \<open>callClaude\<close> up to its first \<open>await\<close>: the flags, the history, and the call to
  \<open>/api/chat\<close> with the history as it is then. \<open>SYSTEM_PROMPT\<close> is a parameter.
\<close>

definition callClaude :: "string \<Rightarrow> jsval \<Rightarrow> app \<Rightarrow> app" where
  "callClaude SYSTEM_PROMPT userMsg st =
     (let h = (if truthy userMsg then history st @ [\<lparr>t_role = ''user'', t_content = userMsg\<rparr>]
               else history st);
          msgs = (if length h > 0 then h
                  else [\<lparr>t_role = ''user'', t_content = JStr ''Please start the lesson!''\<rparr>]);
          call = \<lparr>c_model = ''claude-sonnet-4-20250514'', c_max_tokens = 1000,
                  c_system = SYSTEM_PROMPT, c_messages = msgs\<rparr>
      in st\<lparr>loading := True, error := None, history := h,
            chat_calls := chat_calls st @ [call], in_flight := Suc (in_flight st)\<rparr>)"

definition send :: "string \<Rightarrow> jsval \<Rightarrow> app \<Rightarrow> app" where
  "send SYSTEM_PROMPT text st =
     (let msg = or_else text (JStr (trim (input st))) in
      if \<not> truthy msg \<or> loading st then st
      else
        callClaude SYSTEM_PROMPT msg
          ((stopSpeaking st)
             \<lparr>messages := messages st @ [\<lparr>m_role = ''user'', m_text = msg, m_words = JUndefined\<rparr>],
              input := [], suggestions := JArr []\<rparr>))"

text \<open>How the call to \<open>/api/chat\<close> settles: \<open>fetch\<close> rejects, or it resolves and
  \<open>res.json()\<close> throws or yields the data.\<close>

datatype chat_outcome =
    Rejected js_error
  | Resolved "js_error + jsval"

text \<open>
  The rest of the \<open>try\<close> block of \<open>callClaude\<close>, from \<open>data\<close> on: the state it
  leaves, and the exception if a statement threw. The history is a ref: a push made
  before a later statement throws stays.
\<close>

definition on_data ::
  "(string \<Rightarrow> js_error + jsval) \<Rightarrow> jsval \<Rightarrow> app \<Rightarrow> js_error option \<times> app" where
  "on_data JSON_parse data st =
     (case get_prop data ''content'' of
        Inl ex \<Rightarrow> (Some ex, st)
      | Inr content \<Rightarrow>
          (let raw = or_else (opt_prop (opt_index0 content) ''text'') (JStr []);
               parsed = parse_turn JSON_parse raw;
               st1 = st\<lparr>history := history st @ [\<lparr>t_role = ''assistant'', t_content = raw\<rparr>]\<rparr>
           in case get_prop parsed ''message'' of
                Inl ex \<Rightarrow> (Some ex, st1)
              | Inr message \<Rightarrow>
                  (let coachMsg = \<lparr>m_role = ''coach'', m_text = message,
                                    m_words = or_else (opt_prop parsed ''words'') (JArr [])\<rparr>
                   in (None,
                       st1\<lparr>messages := messages st1 @ [coachMsg],
                           suggestions := or_else (opt_prop parsed ''suggestions'') (JArr []),
                           spoken := spoken st1 @
                             [or_else (opt_prop parsed ''message_spoken'') message]\<rparr>))))"

definition cannot_connect :: string where
  "cannot_connect = ''Couldn'' @ [CHR 0x27] @ ''t connect to Finbar. Please try again.''"

text \<open>The continuation of \<open>callClaude\<close> with its \<open>catch\<close> and \<open>finally\<close>.\<close>

definition settle :: "(string \<Rightarrow> js_error + jsval) \<Rightarrow> chat_outcome \<Rightarrow> app \<Rightarrow> app" where
  "settle JSON_parse out st =
     (let after =
        (case out of
           Rejected ex \<Rightarrow> st\<lparr>error := Some cannot_connect\<rparr>
         | Resolved (Inl ex) \<Rightarrow> st\<lparr>error := Some cannot_connect\<rparr>
         | Resolved (Inr data) \<Rightarrow>
             (case on_data JSON_parse data st of
                (Some ex, st') \<Rightarrow> st'\<lparr>error := Some cannot_connect\<rparr>
              | (None, st') \<Rightarrow> st'))
      in after\<lparr>loading := False, in_flight := in_flight after - 1\<rparr>)"

text \<open>
  What the user and the network can do. The login screen takes the password, the start
  screen the start button, the chat screen the input and \<open>send\<close> (the button, the Enter
  key, a suggestion); a pending call settles at any moment. Each handler reads the state
  of the latest render. Listening and playback touch neither the loading flag nor the
  chat calls and are left out.
\<close>

datatype event =
    TypePassword string
  | Unlock
  | Start
  | TypeInput string
  | Send jsval
  | Settle chat_outcome

fun enabled :: "event \<Rightarrow> app \<Rightarrow> bool" where
  "enabled (TypePassword s) st = (\<not> authenticated st)"
| "enabled Unlock st = (\<not> authenticated st)"
| "enabled Start st = (authenticated st \<and> \<not> started st)"
| "enabled (TypeInput s) st = (authenticated st \<and> started st)"
| "enabled (Send text) st = (authenticated st \<and> started st)"
| "enabled (Settle out) st = (0 < in_flight st)"

fun step :: "string \<Rightarrow> (string \<Rightarrow> js_error + jsval) \<Rightarrow> event \<Rightarrow> app \<Rightarrow> app" where
  "step SYSTEM_PROMPT JSON_parse (TypePassword s) st = st\<lparr>password := s\<rparr>"
| "step SYSTEM_PROMPT JSON_parse Unlock st =
     (if password st = ''luke123'' then st\<lparr>authenticated := True\<rparr> else st)"
| "step SYSTEM_PROMPT JSON_parse Start st = callClaude SYSTEM_PROMPT JNull (st\<lparr>started := True\<rparr>)"
| "step SYSTEM_PROMPT JSON_parse (TypeInput s) st = st\<lparr>input := s\<rparr>"
| "step SYSTEM_PROMPT JSON_parse (Send text) st = send SYSTEM_PROMPT text st"
| "step SYSTEM_PROMPT JSON_parse (Settle out) st = settle JSON_parse out st"

text \<open>The states the client reaches by a run of enabled events.\<close>

fun run_events :: "string \<Rightarrow> (string \<Rightarrow> js_error + jsval) \<Rightarrow> event list \<Rightarrow> app \<Rightarrow> app option" where
  "run_events SYSTEM_PROMPT JSON_parse [] st = Some st"
| "run_events SYSTEM_PROMPT JSON_parse (ev # evs) st =
     (if enabled ev st then run_events SYSTEM_PROMPT JSON_parse evs (step SYSTEM_PROMPT JSON_parse ev st)
      else None)"

section \<open>Sample deployments and providers\<close>

text \<open>An environment with no variable set, and one with the Azure key and region.\<close>

definition no_env :: env where
  "no_env = (\<lambda>k. None)"

definition azure_env :: env where
  "azure_env =
     (\<lambda>k. if k = ''AZURE_SPEECH_KEY'' then Some ''0123456789abcdef''
          else if k = ''AZURE_SPEECH_REGION'' then Some ''northeurope''
          else None)"

text \<open>A platform whose \<open>fetch\<close> settles the same way for every call and whose recogniser
  gives the same outcome.\<close>

definition provider :: "(js_error + fetch_response) \<Rightarrow> sdk_outcome \<Rightarrow> platform" where
  "provider settled outcome =
     \<lparr>fetch = (\<lambda>call. settled),
      base64_decode = (\<lambda>s. replicate (3 * (length s div 4)) 0),
      buffer_from_other = (\<lambda>v. Inl (TypeError ''The first argument must be of type string'')),
      form_boundary = ''--------------------------493127205632887126935236'',
      recognizeOnce = (\<lambda>call. outcome)\<rparr>"

text \<open>A provider answer with a JSON body, and one whose body is not JSON.\<close>

definition json_answer :: "nat \<Rightarrow> jsval \<Rightarrow> fetch_response" where
  "json_answer st v = \<lparr>r_status = st, r_json = Inr v, r_text = ''{...}'', r_arrayBuffer = []\<rparr>"

definition plain_answer :: "nat \<Rightarrow> string \<Rightarrow> fetch_response" where
  "plain_answer st body =
     \<lparr>r_status = st, r_json = Inl (SyntaxError ''Unexpected token''), r_text = body,
      r_arrayBuffer = map (\<lambda>c. of_nat (of_char c)) body\<rparr>"

definition post :: "jsval \<Rightarrow> request" where
  "post body = \<lparr>req_method = ''POST'', req_body = body\<rparr>"

section \<open>Predicates of the statements\<close>

text \<open>Both Azure variables are set and not empty: the guard of the transcription
  handlers lets the request through.\<close>

definition configured :: "env \<Rightarrow> bool" where
  "configured e = (present (e ''AZURE_SPEECH_KEY'') \<and> present (e ''AZURE_SPEECH_REGION''))"

text \<open>The loading flag counts the pending chat calls, and is only set on the chat screen.\<close>

definition serialized :: "app \<Rightarrow> bool" where
  "serialized st = (in_flight st = (if loading st then 1 else 0) \<and> (started st \<or> \<not> loading st))"

section \<open>Reading the request\<close>

lemma destructure_body: "destructure (or_else b (JObj [])) k = Inr (opt_prop b k)"
  by (cases b) (simp_all add: destructure_def or_else_def opt_prop_def nullish_def)

lemma destructure_present: "\<not> nullish v \<Longrightarrow> destructure v k = Inr (opt_prop v k)"
  by (cases v) (simp_all add: destructure_def opt_prop_def nullish_def)

lemma configured_azure_env: "configured azure_env"
  by (simp add: configured_def azure_env_def present_def)

lemma configured_no_env: "\<not> configured no_env"
  by (simp add: configured_def no_env_def present_def)

section \<open>The guards of the transcription handlers\<close>

lemma rest_try_unconfigured:
  "\<not> configured e \<Longrightarrow>
   rest_try defn mk e p req =
     (Inr (json_response 500 cors_headers (err_obj (JStr not_configured))), [])"
  by (auto simp: rest_try_def Let_def configured_def)

lemma sdk_try_unconfigured:
  "\<not> configured e \<Longrightarrow>
   sdk_try e p req = (Inr (json_response 500 [] (err_obj (JStr not_configured))), [])"
  by (auto simp: sdk_try_def Let_def configured_def)

lemma rest_try_no_audio:
  "configured e \<Longrightarrow> \<not> truthy (opt_prop (req_body req) ''audio'') \<Longrightarrow>
   rest_try defn mk e p req = (Inr (json_response 400 cors_headers (err_obj (JStr no_audio))), [])"
  by (simp add: rest_try_def Let_def destructure_body configured_def)

lemma sdk_try_no_audio:
  "configured e \<Longrightarrow> \<not> truthy (opt_prop (req_body req) ''audio'') \<Longrightarrow>
   sdk_try e p req = (Inr (json_response 400 [] (err_obj (JStr no_audio))), [])"
  by (simp add: sdk_try_def Let_def destructure_body configured_def)

text \<open>The REST \<open>try\<close> block once the credentials, the audio and the buffer are there.\<close>

lemma rest_try_submits:
  assumes "configured e"
    and "opt_prop (req_body req) ''audio'' = audio" and "truthy audio"
    and "Buffer_from_base64 p audio = Inr audioBuffer"
  shows "rest_try defn mk e p req =
     (let call = azure_request p (e ''AZURE_SPEECH_KEY'') (e ''AZURE_SPEECH_REGION'')
                   (mk (transcribe_form audioBuffer defn)) in
      case fetch p call of
        Inl ex \<Rightarrow> (Inl ex, [Fetch call])
      | Inr azureResponse \<Rightarrow>
          if \<not> r_ok azureResponse
          then (Inr (json_response 502 cors_headers
                       (err_obj (JStr (''Azure transcription failed: '' @ r_text azureResponse)))),
                [Fetch call])
          else
            case r_json azureResponse of
              Inl ex \<Rightarrow> (Inl ex, [Fetch call])
            | Inr result \<Rightarrow>
                (case extract_transcript result of
                   Inl ex \<Rightarrow> (Inl ex, [Fetch call])
                 | Inr transcript \<Rightarrow> (Inr (json_response 200 cors_headers transcript), [Fetch call])))"
  using assms by (simp add: rest_try_def Let_def destructure_body configured_def)

lemma extract_transcript_ok:
  "\<not> nullish result \<Longrightarrow>
   extract_transcript result =
     Inr (JObj [(''text'',
                   or_else (opt_prop (opt_index0 (opt_prop result ''combinedPhrases'')) ''text'') (JStr [])),
                (''language'',
                   or_else (opt_prop (opt_index0 (opt_prop result ''phrases'')) ''locale'') (JStr []))])"
  by (cases result) (simp_all add: extract_transcript_def nullish_def opt_prop_def Let_def)

lemma speak_try_submits:
  assumes "\<not> nullish (req_body req)"
    and "fetch p (speak_request e (opt_prop (req_body req) ''text'')) = Inr response"
  shows "speak_try e p req =
     (if r_ok response then Inr (audio_response (r_arrayBuffer response))
      else case r_json response of
             Inl ex \<Rightarrow> Inl ex
           | Inr err \<Rightarrow> Inr (json_response 500 [] (err_obj err)),
      [Fetch (speak_request e (opt_prop (req_body req) ''text''))])"
  using assms by (simp add: speak_try_def Let_def destructure_present split: sum.splits)

section \<open>Method gating\<close>

text \<open>
  Claim C6, as the code has it: every serverless handler answers a request whose method
  is not POST with status 405 and contacts no provider, except that the two REST
  transcription variants answer OPTIONS with status 200 and an empty body. (The routes
  of the local server are registered for POST and hold no method check of their own.)
\<close>

theorem C6_non_post_rejected:
  assumes "req_method req \<noteq> ''POST''"
  shows "speak_handler e p req = (method_not_allowed [], [])
       \<and> transcribe_sdk e p req = (method_not_allowed [], [])
       \<and> transcribe_handler e p req =
           (if req_method req = ''OPTIONS''
            then (\<lparr>res_status = 200, res_headers = cors_headers, res_body = End\<rparr>, [])
            else (method_not_allowed cors_headers, []))
       \<and> transcribe_rest_earlier e p req =
           (if req_method req = ''OPTIONS''
            then (\<lparr>res_status = 200, res_headers = cors_headers, res_body = End\<rparr>, [])
            else (method_not_allowed cors_headers, []))
       \<and> res_status (method_not_allowed hs) = 405"
  using assms
  by (simp add: speak_handler_def transcribe_sdk_def transcribe_handler_def
      transcribe_rest_earlier_def rest_handler_def method_not_allowed_def json_response_def)

theorem C6_non_post_rejected_witness:
  "speak_handler no_env (provider (Inl (Error ''unreachable'')) NoMatch)
       \<lparr>req_method = ''GET'', req_body = JUndefined\<rparr> = (method_not_allowed [], [])
   \<and> transcribe_handler no_env (provider (Inl (Error ''unreachable'')) NoMatch)
       \<lparr>req_method = ''GET'', req_body = JUndefined\<rparr> = (method_not_allowed cors_headers, [])"
  using C6_non_post_rejected [of "\<lparr>req_method = ''GET'', req_body = JUndefined\<rparr>" no_env
      "provider (Inl (Error ''unreachable'')) NoMatch"]
  by simp

text \<open>Claim C6 as stated fails on an OPTIONS request to \<open>api/transcribe.js\<close>: the method is
  not POST and the status is 200.\<close>

theorem C6_options_counterexample:
  "req_method \<lparr>req_method = ''OPTIONS'', req_body = JUndefined\<rparr> \<noteq> ''POST''
   \<and> res_status (fst (transcribe_handler no_env (provider (Inl (Error ''unreachable'')) NoMatch)
        \<lparr>req_method = ''OPTIONS'', req_body = JUndefined\<rparr>)) = 200"
  by (simp add: transcribe_handler_def rest_handler_def)

section \<open>A request without audio\<close>

text \<open>
  Claim C10, as the code has it: a POST request to a transcription handler (the REST
  handler, its earlier variant, the SDK variant) whose body is absent or has no truthy
  \<open>audio\<close> field never reaches the provider; the answer is status 400 with the
  "no audio" message when the Azure key and region are both set, and the status 500
  configuration error when one of them is missing, since the credentials are checked
  first.
\<close>

theorem C10_no_audio:
  assumes "req_method req = ''POST''"
    and "\<not> truthy (opt_prop (req_body req) ''audio'')"
  shows "transcribe_handler e p req =
           (json_response (if configured e then 400 else 500) cors_headers
              (err_obj (JStr (if configured e then no_audio else not_configured))), [])
       \<and> transcribe_rest_earlier e p req =
           (json_response (if configured e then 400 else 500) cors_headers
              (err_obj (JStr (if configured e then no_audio else not_configured))), [])
       \<and> transcribe_sdk e p req =
           (json_response (if configured e then 400 else 500) []
              (err_obj (JStr (if configured e then no_audio else not_configured))), [])"
proof (cases "configured e")
  case True
  show ?thesis
    using assms(1) True
    by (simp add: transcribe_handler_def transcribe_rest_earlier_def rest_handler_def
        transcribe_sdk_def rest_try_no_audio [OF True assms(2)] sdk_try_no_audio [OF True assms(2)])
next
  case False
  show ?thesis
    using assms(1) False
    by (simp add: transcribe_handler_def transcribe_rest_earlier_def rest_handler_def
        transcribe_sdk_def rest_try_unconfigured [OF False] sdk_try_unconfigured [OF False])
qed

theorem C10_no_audio_witness:
  "transcribe_handler azure_env (provider (Inl (Error ''unreachable'')) NoMatch) (post (JObj [])) =
     (json_response 400 cors_headers (err_obj (JStr no_audio)), [])
   \<and> transcribe_sdk azure_env (provider (Inl (Error ''unreachable'')) NoMatch) (post JUndefined) =
     (json_response 400 [] (err_obj (JStr no_audio)), [])"
  using C10_no_audio [of "post (JObj [])" azure_env "provider (Inl (Error ''unreachable'')) NoMatch"]
    C10_no_audio [of "post JUndefined" azure_env "provider (Inl (Error ''unreachable'')) NoMatch"]
  by (simp add: post_def opt_prop_def configured_azure_env)

text \<open>Claim C10 as stated fails where no Azure variable is set: the request has no body,
  and the status is 500, not 400.\<close>

theorem C10_unconfigured_counterexample:
  "req_method (post JUndefined) = ''POST''
   \<and> \<not> truthy (opt_prop (req_body (post JUndefined)) ''audio'')
   \<and> res_status (fst (transcribe_handler no_env (provider (Inl (Error ''unreachable'')) NoMatch)
        (post JUndefined))) = 500"
  by (simp add: post_def opt_prop_def transcribe_handler_def rest_handler_def
      rest_try_unconfigured [OF configured_no_env] json_response_def)

section \<open>Credentials\<close>

lemma speak_try_calls:
  assumes "\<not> nullish (req_body req)"
  shows "speak_try e p req =
     (case fetch p (speak_request e (opt_prop (req_body req) ''text'')) of
        Inl ex \<Rightarrow> Inl ex
      | Inr response \<Rightarrow>
          if r_ok response then Inr (audio_response (r_arrayBuffer response))
          else (case r_json response of
                  Inl ex \<Rightarrow> Inl ex
                | Inr err \<Rightarrow> Inr (json_response 500 [] (err_obj err))),
      [Fetch (speak_request e (opt_prop (req_body req) ''text''))])"
  using assms by (simp add: speak_try_def Let_def destructure_present split: sum.splits)

text \<open>
  Claim C5, as the code has it: every handler reads its credentials from the environment
  when the request arrives. The three transcription handlers check them: with the Azure
  key or region missing or empty, a POST request gets the status 500 configuration
  error and the provider is not contacted. The chat and speech handlers do not check,
  whatever the environment holds: the chat relay calls the provider for every request,
  the speech handlers for every POST request with a body, the key header of the call
  is the value of the variable as it is, and the response is made from the provider's
  answer alone.
\<close>

theorem C5_missing_credentials:
  "(req_method req = ''POST'' \<and> \<not> configured e \<longrightarrow>
      transcribe_handler e p req =
        (json_response 500 cors_headers (err_obj (JStr not_configured)), [])
      \<and> transcribe_rest_earlier e p req =
        (json_response 500 cors_headers (err_obj (JStr not_configured)), [])
      \<and> transcribe_sdk e p req = (json_response 500 [] (err_obj (JStr not_configured)), []))
   \<and> express_chat e p req =
       (case fetch p (chat_request e (req_body req)) of
          Inl ex \<Rightarrow> something_went_wrong
        | Inr response \<Rightarrow>
            (case r_json response of
               Inl ex \<Rightarrow> something_went_wrong
             | Inr data \<Rightarrow> json_response 200 [] data),
        [Fetch (chat_request e (req_body req))])
   \<and> map_of (f_headers (chat_request e (req_body req))) ''x-api-key'' = Some (e ''ANTHROPIC_API_KEY'')
   \<and> (\<not> nullish (req_body req) \<longrightarrow>
        express_speak e p req =
          (case fetch p (speak_request e (opt_prop (req_body req) ''text'')) of
             Inl ex \<Rightarrow> voice_failed
           | Inr response \<Rightarrow>
               if r_ok response then audio_response (r_arrayBuffer response)
               else (case r_json response of
                       Inl ex \<Rightarrow> voice_failed
                     | Inr err \<Rightarrow> json_response 500 [] (err_obj err)),
           [Fetch (speak_request e (opt_prop (req_body req) ''text''))]))
   \<and> (req_method req = ''POST'' \<longrightarrow> speak_handler e p req = express_speak e p req)
   \<and> map_of (f_headers (speak_request e (opt_prop (req_body req) ''text''))) ''xi-api-key'' =
       Some (e ''ELEVENLABS_API_KEY'')"
proof (intro conjI impI)
  assume a: "req_method req = ''POST'' \<and> \<not> configured e"
  then have u: "\<not> configured e" by simp
  from a show "transcribe_handler e p req =
      (json_response 500 cors_headers (err_obj (JStr not_configured)), [])"
    by (simp add: transcribe_handler_def rest_handler_def rest_try_unconfigured [OF u])
  from a show "transcribe_rest_earlier e p req =
      (json_response 500 cors_headers (err_obj (JStr not_configured)), [])"
    by (simp add: transcribe_rest_earlier_def rest_handler_def rest_try_unconfigured [OF u])
  from a show "transcribe_sdk e p req = (json_response 500 [] (err_obj (JStr not_configured)), [])"
    by (simp add: transcribe_sdk_def sdk_try_unconfigured [OF u])
next
  show "express_chat e p req =
       (case fetch p (chat_request e (req_body req)) of
          Inl ex \<Rightarrow> something_went_wrong
        | Inr response \<Rightarrow>
            (case r_json response of
               Inl ex \<Rightarrow> something_went_wrong
             | Inr data \<Rightarrow> json_response 200 [] data),
        [Fetch (chat_request e (req_body req))])"
    by (simp add: express_chat_def chat_try_def Let_def split: sum.splits)
next
  show "map_of (f_headers (chat_request e (req_body req))) ''x-api-key'' = Some (e ''ANTHROPIC_API_KEY'')"
    by (simp add: chat_request_def)
next
  assume "\<not> nullish (req_body req)"
  from speak_try_calls [OF this, of e p]
  show "express_speak e p req =
          (case fetch p (speak_request e (opt_prop (req_body req) ''text'')) of
             Inl ex \<Rightarrow> voice_failed
           | Inr response \<Rightarrow>
               if r_ok response then audio_response (r_arrayBuffer response)
               else (case r_json response of
                       Inl ex \<Rightarrow> voice_failed
                     | Inr err \<Rightarrow> json_response 500 [] (err_obj err)),
           [Fetch (speak_request e (opt_prop (req_body req) ''text''))])"
    by (simp add: express_speak_def split: sum.splits)
next
  assume "req_method req = ''POST''"
  then show "speak_handler e p req = express_speak e p req"
    by (simp add: speak_handler_def express_speak_def)
next
  show "map_of (f_headers (speak_request e (opt_prop (req_body req) ''text''))) ''xi-api-key'' =
       Some (e ''ELEVENLABS_API_KEY'')"
    by (simp add: speak_request_def)
qed

theorem C5_missing_credentials_witness:
  "transcribe_handler no_env (provider (Inl (Error ''unreachable'')) NoMatch)
     (post (JObj [(''audio'', JStr ''AAAA'')])) =
     (json_response 500 cors_headers (err_obj (JStr not_configured)), [])
   \<and> speak_handler no_env
        (provider (Inr (json_answer 401 (JObj [(''detail'', JStr ''invalid_api_key'')]))) NoMatch)
        (post (JObj [(''text'', JStr ''Dia duit'')])) =
     (json_response 500 [] (err_obj (JObj [(''detail'', JStr ''invalid_api_key'')])),
      [Fetch (speak_request no_env (JStr ''Dia duit''))])"
proof
  let ?p = "provider (Inl (Error ''unreachable'')) NoMatch"
  let ?req = "post (JObj [(''audio'', JStr ''AAAA'')])"
  have h: "req_method ?req = ''POST'' \<and> \<not> configured no_env"
    by (simp add: post_def configured_no_env)
  from C5_missing_credentials [of ?req no_env ?p, THEN conjunct1, rule_format, OF h, THEN conjunct1]
  show "transcribe_handler no_env ?p ?req =
     (json_response 500 cors_headers (err_obj (JStr not_configured)), [])" .
next
  let ?r = "json_answer 401 (JObj [(''detail'', JStr ''invalid_api_key'')])"
  let ?p = "provider (Inr ?r) NoMatch"
  let ?req = "post (JObj [(''text'', JStr ''Dia duit'')])"
  note c = C5_missing_credentials [of ?req no_env ?p]
  have m: "req_method ?req = ''POST''" by (simp add: post_def)
  have b: "\<not> nullish (req_body ?req)" by (simp add: post_def nullish_def)
  have t: "opt_prop (req_body ?req) ''text'' = JStr ''Dia duit''"
    by (simp add: post_def opt_prop_def)
  have f: "fetch ?p (speak_request no_env (JStr ''Dia duit'')) = Inr ?r"
    by (simp add: provider_def)
  have o: "\<not> r_ok ?r" by (simp add: r_ok_def json_answer_def)
  have j: "r_json ?r = Inr (JObj [(''detail'', JStr ''invalid_api_key'')])"
    by (simp add: json_answer_def)
  from c [THEN conjunct2, THEN conjunct2, THEN conjunct2, THEN conjunct1, rule_format, OF b]
  have "express_speak no_env ?p ?req =
     (json_response 500 [] (err_obj (JObj [(''detail'', JStr ''invalid_api_key'')])),
      [Fetch (speak_request no_env (JStr ''Dia duit''))])"
    unfolding t f using o by (simp add: j)
  moreover from c [THEN conjunct2, THEN conjunct2, THEN conjunct2, THEN conjunct2, THEN conjunct1,
      rule_format, OF m]
  have "speak_handler no_env ?p ?req = express_speak no_env ?p ?req" .
  ultimately show "speak_handler no_env ?p ?req =
     (json_response 500 [] (err_obj (JObj [(''detail'', JStr ''invalid_api_key'')])),
      [Fetch (speak_request no_env (JStr ''Dia duit''))])"
    by simp
qed

text \<open>Claim C5 as stated fails on the speech handler: with no variable set the request
  goes to the provider with an undefined key, and the provider's audio comes back with
  status 200.\<close>

theorem C5_speak_counterexample:
  "speak_handler no_env (provider (Inr (plain_answer 200 ''ID3'')) NoMatch)
     (post (JObj [(''text'', JStr ''Dia duit'')])) =
     (audio_response [73, 68, 51], [Fetch (speak_request no_env (JStr ''Dia duit''))])
   \<and> map_of (f_headers (speak_request no_env (JStr ''Dia duit''))) ''xi-api-key'' = Some None
   \<and> res_status (audio_response [73, 68, 51]) = 200"
  by (simp add: speak_handler_def speak_try_def destructure_def nullish_def post_def provider_def
      plain_answer_def r_ok_def speak_request_def no_env_def audio_response_def)

section \<open>The transcription path\<close>

lemma rest_try_calls:
  assumes "configured e"
    and "opt_prop (req_body req) ''audio'' = audio" and "truthy audio"
    and "Buffer_from_base64 p audio = Inr audioBuffer"
  shows "snd (rest_try defn mk e p req) =
     [Fetch (azure_request p (e ''AZURE_SPEECH_KEY'') (e ''AZURE_SPEECH_REGION'')
               (mk (transcribe_form audioBuffer defn)))]"
  unfolding rest_try_submits [OF assms]
  by (simp add: Let_def split: sum.splits)

lemma rest_handler_calls:
  assumes "req_method req = ''POST''"
  shows "snd (rest_handler defn mk e p req) = snd (rest_try defn mk e p req)"
proof -
  obtain x calls where r: "rest_try defn mk e p req = (x, calls)"
    by (cases "rest_try defn mk e p req")
  with assms show ?thesis
    by (cases x) (simp_all add: rest_handler_def)
qed

text \<open>
  Claim C1, as the code has it: for every POST request to \<open>api/transcribe.js\<close> whose
  body carries a non-empty string in \<open>audio\<close>, with the Azure key and region set, the
  handler decodes the string from base64 and submits exactly one request to the
  transcription endpoint of the region, whose body goes out as a multipart form: a file
  part \<open>audio\<close> with the decoded bytes and a \<open>definition\<close> part with the locales (en-IE,
  with candidates en-IE and ga-IE). When the provider answers that request with a
  success status and a JSON body other than \<open>null\<close>, the handler returns status 200
  with the body \<open>{ text, language }\<close>: \<open>text\<close> is the text of the first combined phrase
  and \<open>language\<close> the locale of the first phrase, each the empty string when absent or
  falsy.
\<close>

theorem C1_transcription_success:
  assumes "req_method req = ''POST''"
    and "configured e"
    and "opt_prop (req_body req) ''audio'' = JStr audio" and "audio \<noteq> []"
    and "call = azure_request p (e ''AZURE_SPEECH_KEY'') (e ''AZURE_SPEECH_REGION'')
                  (FormBuffer [FilePart ''audio'' (base64_decode p audio) ''recording.m4a'' ''audio/mp4'',
                               FieldPart ''definition'' definition_current])"
  shows "snd (transcribe_handler e p req) = [Fetch call]
       \<and> f_url call = ''https://'' @ interpolate (e ''AZURE_SPEECH_REGION'') @
                        ''.api.cognitive.microsoft.com/speechtotext/transcriptions:transcribe?api-version=2024-11-15''
       \<and> transmitted (f_body call) =
           Multipart
             [FilePart ''audio'' (base64_decode p audio) ''recording.m4a'' ''audio/mp4'',
              FieldPart ''definition''
                (JObj [(''locales'', JArr [JStr ''en-IE'']),
                       (''languageIdentification'',
                          JObj [(''candidateLocales'', JArr [JStr ''en-IE'', JStr ''ga-IE''])])])]
       \<and> (fetch p call = Inr azureResponse \<and> r_ok azureResponse
            \<and> r_json azureResponse = Inr result \<and> \<not> nullish result \<longrightarrow>
            fst (transcribe_handler e p req) =
              json_response 200 cors_headers
                (JObj [(''text'',
                          or_else (opt_prop (opt_index0 (opt_prop result ''combinedPhrases'')) ''text'')
                            (JStr [])),
                       (''language'',
                          or_else (opt_prop (opt_index0 (opt_prop result ''phrases'')) ''locale'')
                            (JStr []))]))"
proof -
  have b: "Buffer_from_base64 p (JStr audio) = Inr (base64_decode p audio)"
    by (simp add: Buffer_from_base64_def)
  have t: "truthy (JStr audio)" using assms(4) by simp
  have c: "call = azure_request p (e ''AZURE_SPEECH_KEY'') (e ''AZURE_SPEECH_REGION'')
                    (FormBuffer (transcribe_form (base64_decode p audio) definition_current))"
    by (simp add: assms(5) transcribe_form_def)
  have 1: "snd (transcribe_handler e p req) = [Fetch call]"
    using rest_try_calls [OF assms(2,3) t b, of definition_current FormBuffer]
    by (simp add: transcribe_handler_def rest_handler_calls [OF assms(1)] c)
  have 2: "f_url call = ''https://'' @ interpolate (e ''AZURE_SPEECH_REGION'') @
                        ''.api.cognitive.microsoft.com/speechtotext/transcriptions:transcribe?api-version=2024-11-15''"
    by (simp add: assms(5) azure_request_def azure_endpoint_def)
  have 3: "transmitted (f_body call) =
           Multipart
             [FilePart ''audio'' (base64_decode p audio) ''recording.m4a'' ''audio/mp4'',
              FieldPart ''definition''
                (JObj [(''locales'', JArr [JStr ''en-IE'']),
                       (''languageIdentification'',
                          JObj [(''candidateLocales'', JArr [JStr ''en-IE'', JStr ''ga-IE''])])])]"
    by (simp add: assms(5) azure_request_def definition_current_def)
  have 4: "fst (transcribe_handler e p req) =
              json_response 200 cors_headers
                (JObj [(''text'',
                          or_else (opt_prop (opt_index0 (opt_prop result ''combinedPhrases'')) ''text'')
                            (JStr [])),
                       (''language'',
                          or_else (opt_prop (opt_index0 (opt_prop result ''phrases'')) ''locale'')
                            (JStr []))])"
    if "fetch p call = Inr azureResponse \<and> r_ok azureResponse
        \<and> r_json azureResponse = Inr result \<and> \<not> nullish result"
    using that assms(1) c rest_try_submits [OF assms(2,3) t b, of definition_current FormBuffer]
    by (simp add: transcribe_handler_def rest_handler_def Let_def extract_transcript_ok)
  from 1 2 3 4 show ?thesis by blast
qed

theorem C1_transcription_success_witness:
  "transcribe_handler azure_env
     (provider (Inr (json_answer 200
        (JObj [(''combinedPhrases'', JArr [JObj [(''text'', JStr ''Dia duit'')]]),
               (''phrases'', JArr [JObj [(''text'', JStr ''Dia duit''), (''locale'', JStr ''ga-IE'')]])])))
        NoMatch)
     (post (JObj [(''audio'', JStr ''AAAA'')])) =
   (json_response 200 cors_headers (JObj [(''text'', JStr ''Dia duit''), (''language'', JStr ''ga-IE'')]),
    [Fetch \<lparr>f_url = ''https://northeurope.api.cognitive.microsoft.com/speechtotext/transcriptions:transcribe?api-version=2024-11-15'',
            f_method = ''POST'',
            f_headers = [(''Ocp-Apim-Subscription-Key'', Some ''0123456789abcdef''),
                         (''content-type'', Some ''multipart/form-data; boundary=--------------------------493127205632887126935236'')],
            f_body = FormBuffer [FilePart ''audio'' [0, 0, 0] ''recording.m4a'' ''audio/mp4'',
                                 FieldPart ''definition'' definition_current]\<rparr>])"
proof -
  let ?result = "JObj [(''combinedPhrases'', JArr [JObj [(''text'', JStr ''Dia duit'')]]),
                       (''phrases'', JArr [JObj [(''text'', JStr ''Dia duit''), (''locale'', JStr ''ga-IE'')]])]"
  let ?p = "provider (Inr (json_answer 200 ?result)) NoMatch"
  let ?req = "post (JObj [(''audio'', JStr ''AAAA'')])"
  let ?call = "azure_request ?p (azure_env ''AZURE_SPEECH_KEY'') (azure_env ''AZURE_SPEECH_REGION'')
                 (FormBuffer [FilePart ''audio'' (base64_decode ?p ''AAAA'') ''recording.m4a'' ''audio/mp4'',
                              FieldPart ''definition'' definition_current])"
  have 1: "req_method ?req = ''POST''"
    by (simp add: post_def)
  have 3: "opt_prop (req_body ?req) ''audio'' = JStr ''AAAA''"
    by (simp add: post_def opt_prop_def)
  have 4: "''AAAA'' \<noteq> []" by simp
  note th = C1_transcription_success [OF 1 configured_azure_env 3 4 refl,
      where azureResponse = "json_answer 200 ?result" and result = ?result]
  have h: "fetch ?p ?call = Inr (json_answer 200 ?result) \<and> r_ok (json_answer 200 ?result)
           \<and> r_json (json_answer 200 ?result) = Inr ?result \<and> \<not> nullish ?result"
    by (simp add: provider_def r_ok_def json_answer_def nullish_def)
  have t: "or_else (opt_prop (opt_index0 (opt_prop ?result ''combinedPhrases'')) ''text'') (JStr [])
           = JStr ''Dia duit''"
    by (simp add: opt_prop_def or_else_def)
  have l: "or_else (opt_prop (opt_index0 (opt_prop ?result ''phrases'')) ''locale'') (JStr [])
           = JStr ''ga-IE''"
    by (simp add: opt_prop_def or_else_def)
  have c: "?call =
      \<lparr>f_url = ''https://northeurope.api.cognitive.microsoft.com/speechtotext/transcriptions:transcribe?api-version=2024-11-15'',
       f_method = ''POST'',
       f_headers = [(''Ocp-Apim-Subscription-Key'', Some ''0123456789abcdef''),
                    (''content-type'', Some ''multipart/form-data; boundary=--------------------------493127205632887126935236'')],
       f_body = FormBuffer [FilePart ''audio'' [0, 0, 0] ''recording.m4a'' ''audio/mp4'',
                            FieldPart ''definition'' definition_current]\<rparr>"
  proof -
    have "replicate 3 (0::byte) = [0, 0, 0]"
      by (simp add: numeral_3_eq_3)
    then show ?thesis
      by (simp add: azure_request_def azure_endpoint_def interpolate_def azure_env_def provider_def)
  qed
  from th [THEN conjunct1]
  have s: "snd (transcribe_handler azure_env ?p ?req) = [Fetch ?call]" .
  from th [THEN conjunct2, THEN conjunct2, THEN conjunct2, rule_format, OF h]
  have f: "fst (transcribe_handler azure_env ?p ?req) =
      json_response 200 cors_headers (JObj [(''text'', JStr ''Dia duit''), (''language'', JStr ''ga-IE'')])"
    unfolding t l .
  from s f show ?thesis
    unfolding c by (simp add: prod_eq_iff)
qed

text \<open>Claim C1 as stated fails where no Azure variable is set: the body carries base64
  audio and the provider would answer, yet nothing is submitted and the status is 500.\<close>

theorem C1_unconfigured_counterexample:
  "req_method (post (JObj [(''audio'', JStr ''AAAA'')])) = ''POST''
   \<and> opt_prop (req_body (post (JObj [(''audio'', JStr ''AAAA'')]))) ''audio'' = JStr ''AAAA''
   \<and> transcribe_handler no_env
        (provider (Inr (json_answer 200 (JObj [(''combinedPhrases'', JArr [JObj [(''text'', JStr ''Dia duit'')]])])))
           NoMatch)
        (post (JObj [(''audio'', JStr ''AAAA'')])) =
      (\<lparr>res_status = 500, res_headers = cors_headers,
        res_body = Json (JObj [(''error'', JStr not_configured)])\<rparr>, [])"
  by (simp add: post_def opt_prop_def transcribe_handler_def rest_handler_def
      rest_try_unconfigured [OF configured_no_env] json_response_def err_obj_def)

section \<open>Provider failures\<close>

text \<open>
  Claim C2, as the code has it, for the handlers that look at the provider's status
  (the chat relay does not): when the provider answers a POST request with a
  non-success status, the speech handlers respond with status 500 and the body
  \<open>{ error: payload }\<close> if the provider's body parses as JSON, and with status 500 and
  the fixed \<open>{ error: 'Voice failed' }\<close> if it does not; the REST transcription handlers
  respond with status 502 and the provider's body text appended to
  \<open>'Azure transcription failed: '\<close> in \<open>error\<close>.
\<close>

theorem C2_provider_failure:
  assumes "req_method req = ''POST''" and "\<not> r_ok response"
  shows "(\<not> nullish (req_body req)
          \<and> fetch p (speak_request e (opt_prop (req_body req) ''text'')) = Inr response \<longrightarrow>
            speak_handler e p req =
              (json_response 500 []
                 (JObj [(''error'', case r_json response of Inr err \<Rightarrow> err | Inl ex \<Rightarrow> JStr ''Voice failed'')]),
               [Fetch (speak_request e (opt_prop (req_body req) ''text''))])
            \<and> express_speak e p req = speak_handler e p req)
       \<and> (configured e \<and> opt_prop (req_body req) ''audio'' = audio \<and> truthy audio
          \<and> Buffer_from_base64 p audio = Inr audioBuffer
          \<and> fetch p (azure_request p (e ''AZURE_SPEECH_KEY'') (e ''AZURE_SPEECH_REGION'')
                       (FormBuffer (transcribe_form audioBuffer definition_current))) = Inr response \<longrightarrow>
            transcribe_handler e p req =
              (json_response 502 cors_headers
                 (JObj [(''error'', JStr (''Azure transcription failed: '' @ r_text response))]),
               [Fetch (azure_request p (e ''AZURE_SPEECH_KEY'') (e ''AZURE_SPEECH_REGION'')
                         (FormBuffer (transcribe_form audioBuffer definition_current)))]))
       \<and> (configured e \<and> opt_prop (req_body req) ''audio'' = audio \<and> truthy audio
          \<and> Buffer_from_base64 p audio = Inr audioBuffer
          \<and> fetch p (azure_request p (e ''AZURE_SPEECH_KEY'') (e ''AZURE_SPEECH_REGION'')
                       (FormStream (transcribe_form audioBuffer definition_earlier))) = Inr response \<longrightarrow>
            transcribe_rest_earlier e p req =
              (json_response 502 cors_headers
                 (JObj [(''error'', JStr (''Azure transcription failed: '' @ r_text response))]),
               [Fetch (azure_request p (e ''AZURE_SPEECH_KEY'') (e ''AZURE_SPEECH_REGION'')
                         (FormStream (transcribe_form audioBuffer definition_earlier)))]))"
proof (intro conjI impI)
  assume a: "\<not> nullish (req_body req)
     \<and> fetch p (speak_request e (opt_prop (req_body req) ''text'')) = Inr response"
  then have s: "speak_try e p req =
     (if r_ok response then Inr (audio_response (r_arrayBuffer response))
      else case r_json response of
             Inl ex \<Rightarrow> Inl ex
           | Inr err \<Rightarrow> Inr (json_response 500 [] (err_obj err)),
      [Fetch (speak_request e (opt_prop (req_body req) ''text''))])"
    using speak_try_submits by blast
  show "speak_handler e p req =
      (json_response 500 []
         (JObj [(''error'', case r_json response of Inr err \<Rightarrow> err | Inl ex \<Rightarrow> JStr ''Voice failed'')]),
       [Fetch (speak_request e (opt_prop (req_body req) ''text''))])"
    using assms s by (simp add: speak_handler_def voice_failed_def err_obj_def split: sum.splits)
  show "express_speak e p req = speak_handler e p req"
    using assms(1) by (simp add: speak_handler_def express_speak_def)
next
  assume a: "configured e \<and> opt_prop (req_body req) ''audio'' = audio \<and> truthy audio
     \<and> Buffer_from_base64 p audio = Inr audioBuffer
     \<and> fetch p (azure_request p (e ''AZURE_SPEECH_KEY'') (e ''AZURE_SPEECH_REGION'')
                  (FormBuffer (transcribe_form audioBuffer definition_current))) = Inr response"
  then show "transcribe_handler e p req =
      (json_response 502 cors_headers
         (JObj [(''error'', JStr (''Azure transcription failed: '' @ r_text response))]),
       [Fetch (azure_request p (e ''AZURE_SPEECH_KEY'') (e ''AZURE_SPEECH_REGION'')
                 (FormBuffer (transcribe_form audioBuffer definition_current)))])"
    using assms rest_try_submits [of e req audio p audioBuffer definition_current FormBuffer]
    by (simp add: transcribe_handler_def rest_handler_def Let_def err_obj_def)
next
  assume a: "configured e \<and> opt_prop (req_body req) ''audio'' = audio \<and> truthy audio
     \<and> Buffer_from_base64 p audio = Inr audioBuffer
     \<and> fetch p (azure_request p (e ''AZURE_SPEECH_KEY'') (e ''AZURE_SPEECH_REGION'')
                  (FormStream (transcribe_form audioBuffer definition_earlier))) = Inr response"
  then show "transcribe_rest_earlier e p req =
      (json_response 502 cors_headers
         (JObj [(''error'', JStr (''Azure transcription failed: '' @ r_text response))]),
       [Fetch (azure_request p (e ''AZURE_SPEECH_KEY'') (e ''AZURE_SPEECH_REGION'')
                 (FormStream (transcribe_form audioBuffer definition_earlier)))])"
    using assms rest_try_submits [of e req audio p audioBuffer definition_earlier FormStream]
    by (simp add: transcribe_rest_earlier_def rest_handler_def Let_def err_obj_def)
qed

theorem C2_provider_failure_witness:
  "speak_handler no_env
     (provider (Inr (json_answer 401 (JObj [(''detail'', JStr ''invalid_api_key'')]))) NoMatch)
     (post (JObj [(''text'', JStr ''Dia duit'')])) =
     (json_response 500 [] (JObj [(''error'', JObj [(''detail'', JStr ''invalid_api_key'')])]),
      [Fetch (speak_request no_env (JStr ''Dia duit''))])
   \<and> fst (transcribe_handler azure_env
        (provider (Inr (plain_answer 401 ''Access denied due to invalid subscription key.'')) NoMatch)
        (post (JObj [(''audio'', JStr ''AAAA'')]))) =
     json_response 502 cors_headers
       (JObj [(''error'', JStr ''Azure transcription failed: Access denied due to invalid subscription key.'')])"
proof
  let ?r = "json_answer 401 (JObj [(''detail'', JStr ''invalid_api_key'')])"
  let ?p = "provider (Inr ?r) NoMatch"
  let ?req = "post (JObj [(''text'', JStr ''Dia duit'')])"
  have m: "req_method ?req = ''POST''" by (simp add: post_def)
  have n: "\<not> r_ok ?r" by (simp add: r_ok_def json_answer_def)
  have t: "opt_prop (req_body ?req) ''text'' = JStr ''Dia duit''"
    by (simp add: post_def opt_prop_def)
  have h: "\<not> nullish (req_body ?req)
           \<and> fetch ?p (speak_request no_env (opt_prop (req_body ?req) ''text'')) = Inr ?r"
    by (simp add: post_def nullish_def provider_def)
  have j: "(case r_json ?r of Inr err \<Rightarrow> err | Inl ex \<Rightarrow> JStr ''Voice failed'')
           = JObj [(''detail'', JStr ''invalid_api_key'')]"
    by (simp add: json_answer_def)
  from C2_provider_failure [OF m n, of ?p no_env, THEN conjunct1, rule_format, OF h, THEN conjunct1]
  show "speak_handler no_env ?p ?req =
     (json_response 500 [] (JObj [(''error'', JObj [(''detail'', JStr ''invalid_api_key'')])]),
      [Fetch (speak_request no_env (JStr ''Dia duit''))])"
    unfolding t j .
next
  let ?r = "plain_answer 401 ''Access denied due to invalid subscription key.''"
  let ?p = "provider (Inr ?r) NoMatch"
  let ?req = "post (JObj [(''audio'', JStr ''AAAA'')])"
  have m: "req_method ?req = ''POST''" by (simp add: post_def)
  have n: "\<not> r_ok ?r" by (simp add: r_ok_def plain_answer_def)
  have h: "configured azure_env \<and> opt_prop (req_body ?req) ''audio'' = JStr ''AAAA''
           \<and> truthy (JStr ''AAAA'')
           \<and> Buffer_from_base64 ?p (JStr ''AAAA'') = Inr (base64_decode ?p ''AAAA'')
           \<and> fetch ?p (azure_request ?p (azure_env ''AZURE_SPEECH_KEY'') (azure_env ''AZURE_SPEECH_REGION'')
                (FormBuffer (transcribe_form (base64_decode ?p ''AAAA'') definition_current))) = Inr ?r"
    by (simp add: configured_azure_env post_def opt_prop_def Buffer_from_base64_def provider_def)
  have x: "''Azure transcription failed: '' @ r_text ?r
           = ''Azure transcription failed: Access denied due to invalid subscription key.''"
    by (simp add: plain_answer_def)
  from C2_provider_failure [OF m n, of ?p azure_env, THEN conjunct2, THEN conjunct1, rule_format, OF h]
  show "fst (transcribe_handler azure_env ?p ?req) =
     json_response 502 cors_headers
       (JObj [(''error'', JStr ''Azure transcription failed: Access denied due to invalid subscription key.'')])"
    unfolding x by simp
qed

text \<open>Claim C2 as stated fails on the chat relay: the provider answers 401 with an
  error payload, and the relay responds with status 200.\<close>

theorem C2_chat_counterexample:
  "\<not> r_ok (json_answer 401 (JObj [(''error'', JStr ''invalid x-api-key'')]))
   \<and> res_status (fst (express_chat no_env
        (provider (Inr (json_answer 401 (JObj [(''error'', JStr ''invalid x-api-key'')]))) NoMatch)
        (post (JObj [(''messages'', JArr [])])))) = 200"
  by (simp add: express_chat_def chat_try_def Let_def provider_def json_answer_def json_response_def
      r_ok_def)

section \<open>The chat relay as a pass-through\<close>

text \<open>
  Claim C3, as the code has it: for every request the chat relay makes one call to the
  provider's messages endpoint whose body is the request's JSON body, unmodified. The
  JSON body of the provider's answer is passed back as it is, with status 200 whatever
  status the provider answered with; when the call rejects or the answer is not JSON,
  the relay responds with status 500 and \<open>{ error: 'Something went wrong' }\<close>.
\<close>

theorem C3_chat_relay:
  "snd (express_chat e p req) = [Fetch (chat_request e (req_body req))]
   \<and> f_url (chat_request e (req_body req)) = ''https://api.anthropic.com/v1/messages''
   \<and> f_body (chat_request e (req_body req)) = Stringified (req_body req)
   \<and> fst (express_chat e p req) =
       (case fetch p (chat_request e (req_body req)) of
          Inl ex \<Rightarrow> something_went_wrong
        | Inr response \<Rightarrow>
            (case r_json response of
               Inl ex \<Rightarrow> something_went_wrong
             | Inr data \<Rightarrow> \<lparr>res_status = 200, res_headers = [], res_body = Json data\<rparr>))"
  by (simp add: express_chat_def chat_try_def chat_request_def Let_def json_response_def
      split: sum.splits)

theorem C3_chat_relay_witness:
  "express_chat no_env
     (provider (Inr (json_answer 200 (JObj [(''content'', JArr [JObj [(''text'', JStr ''Dia duit!'')]])]))) NoMatch)
     (post (JObj [(''messages'', JArr [])])) =
   (\<lparr>res_status = 200, res_headers = [],
     res_body = Json (JObj [(''content'', JArr [JObj [(''text'', JStr ''Dia duit!'')]])])\<rparr>,
    [Fetch (chat_request no_env (JObj [(''messages'', JArr [])]))])"
  using C3_chat_relay [of no_env
      "provider (Inr (json_answer 200 (JObj [(''content'', JArr [JObj [(''text'', JStr ''Dia duit!'')]])]))) NoMatch"
      "post (JObj [(''messages'', JArr [])])"]
  by (cases "express_chat no_env
       (provider (Inr (json_answer 200 (JObj [(''content'', JArr [JObj [(''text'', JStr ''Dia duit!'')]])]))) NoMatch)
       (post (JObj [(''messages'', JArr [])]))")
     (simp add: post_def provider_def json_answer_def)

text \<open>Claim C3 as stated fails on the status: the provider answers 429 and the relay
  passes the body back with status 200.\<close>

theorem C3_status_counterexample:
  "r_status (json_answer 429 (JObj [(''type'', JStr ''error'')])) = 429
   \<and> fst (express_chat no_env
            (provider (Inr (json_answer 429 (JObj [(''type'', JStr ''error'')]))) NoMatch)
            (post (JObj [(''messages'', JArr [])]))) =
      \<lparr>res_status = 200, res_headers = [], res_body = Json (JObj [(''type'', JStr ''error'')])\<rparr>"
  by (simp add: express_chat_def chat_try_def Let_def provider_def json_answer_def json_response_def)

section \<open>Exceptions at the handler boundary\<close>

text \<open>
  Claim C4, as the code has it: in every handler an exception raised in the \<open>try\<close>
  block is caught and answered with status 500. The message is fixed in the speech
  handlers (\<open>'Voice failed'\<close>) and in the chat relay (\<open>'Something went wrong'\<close>); in the
  three transcription handlers it is \<open>'Transcription failed: '\<close> followed by the
  message of the exception, or by \<open>'Unknown error'\<close> when that message is empty.
\<close>

theorem C4_caught:
  "(speak_try e p req = (Inl ex, calls) \<and> req_method req = ''POST'' \<longrightarrow>
      speak_handler e p req = (json_response 500 [] (JObj [(''error'', JStr ''Voice failed'')]), calls))
   \<and> (speak_try e p req = (Inl ex, calls) \<longrightarrow>
      express_speak e p req = (json_response 500 [] (JObj [(''error'', JStr ''Voice failed'')]), calls))
   \<and> (chat_try e p req = (Inl ex, calls) \<longrightarrow>
      express_chat e p req =
        (json_response 500 [] (JObj [(''error'', JStr ''Something went wrong'')]), calls))
   \<and> (rest_try definition_current FormBuffer e p req = (Inl ex, calls) \<and> req_method req = ''POST'' \<longrightarrow>
      transcribe_handler e p req =
        (json_response 500 cors_headers
           (JObj [(''error'', JStr (''Transcription failed: '' @
               (if message_of ex = [] then ''Unknown error'' else message_of ex)))]), calls))
   \<and> (rest_try definition_earlier FormStream e p req = (Inl ex, calls) \<and> req_method req = ''POST'' \<longrightarrow>
      transcribe_rest_earlier e p req =
        (json_response 500 cors_headers
           (JObj [(''error'', JStr (''Transcription failed: '' @
               (if message_of ex = [] then ''Unknown error'' else message_of ex)))]), calls))
   \<and> (sdk_try e p req = (Inl ex, calls) \<and> req_method req = ''POST'' \<longrightarrow>
      transcribe_sdk e p req =
        (json_response 500 []
           (JObj [(''error'', JStr (''Transcription failed: '' @
               (if message_of ex = [] then ''Unknown error'' else message_of ex)))]), calls))"
  by (simp add: speak_handler_def express_speak_def express_chat_def transcribe_handler_def
      transcribe_rest_earlier_def rest_handler_def transcribe_sdk_def voice_failed_def
      something_went_wrong_def transcription_failed_def err_obj_def)

theorem C4_caught_witness:
  "speak_handler no_env (provider (Inl (Error ''fetch failed'')) NoMatch)
     (post (JObj [(''text'', JStr ''Dia duit'')])) =
     (json_response 500 [] (JObj [(''error'', JStr ''Voice failed'')]),
      [Fetch (speak_request no_env (JStr ''Dia duit''))])
   \<and> express_chat no_env (provider (Inl (Error ''fetch failed'')) NoMatch)
     (post (JObj [(''messages'', JArr [])])) =
     (json_response 500 [] (JObj [(''error'', JStr ''Something went wrong'')]),
      [Fetch (chat_request no_env (JObj [(''messages'', JArr [])]))])"
proof
  let ?p = "provider (Inl (Error ''fetch failed'')) NoMatch"
  let ?req = "post (JObj [(''text'', JStr ''Dia duit'')])"
  have h: "speak_try no_env ?p ?req =
             (Inl (Error ''fetch failed''), [Fetch (speak_request no_env (JStr ''Dia duit''))])
           \<and> req_method ?req = ''POST''"
    by (simp add: speak_try_def destructure_def nullish_def post_def provider_def Let_def)
  from C4_caught [of no_env ?p ?req, THEN conjunct1, rule_format, OF h]
  show "speak_handler no_env ?p ?req =
     (json_response 500 [] (JObj [(''error'', JStr ''Voice failed'')]),
      [Fetch (speak_request no_env (JStr ''Dia duit''))])" .
next
  let ?p = "provider (Inl (Error ''fetch failed'')) NoMatch"
  let ?req = "post (JObj [(''messages'', JArr [])])"
  have h: "chat_try no_env ?p ?req =
             (Inl (Error ''fetch failed''), [Fetch (chat_request no_env (JObj [(''messages'', JArr [])]))])"
    by (simp add: chat_try_def post_def provider_def Let_def)
  from C4_caught [of no_env ?p ?req, THEN conjunct2, THEN conjunct2, THEN conjunct1, rule_format, OF h]
  show "express_chat no_env ?p ?req =
     (json_response 500 [] (JObj [(''error'', JStr ''Something went wrong'')]),
      [Fetch (chat_request no_env (JObj [(''messages'', JArr [])]))])" .
qed

text \<open>Claim C4 as stated fails on the transcription handler: two exceptions with
  different messages give two different error messages.\<close>

theorem C4_message_counterexample:
  "res_body (fst (transcribe_handler azure_env (provider (Inl (Error ''fetch failed'')) NoMatch)
       (post (JObj [(''audio'', JStr ''AAAA'')])))) =
     Json (JObj [(''error'', JStr ''Transcription failed: fetch failed'')])
   \<and> res_body (fst (transcribe_handler azure_env (provider (Inl (Error ''socket hang up'')) NoMatch)
       (post (JObj [(''audio'', JStr ''AAAA'')])))) =
     Json (JObj [(''error'', JStr ''Transcription failed: socket hang up'')])"
proof -
  have "rest_try definition_current FormBuffer azure_env (provider (Inl ex) NoMatch)
          (post (JObj [(''audio'', JStr ''AAAA'')])) =
        (Inl ex, [Fetch (azure_request (provider (Inl ex) NoMatch) (azure_env ''AZURE_SPEECH_KEY'')
           (azure_env ''AZURE_SPEECH_REGION'')
           (FormBuffer (transcribe_form (base64_decode (provider (Inl ex) NoMatch) ''AAAA'') definition_current)))])"
    for ex
    using rest_try_submits [OF configured_azure_env, of "post (JObj [(''audio'', JStr ''AAAA'')])"
        "JStr ''AAAA''" "provider (Inl ex) NoMatch"
        "base64_decode (provider (Inl ex) NoMatch) ''AAAA''" definition_current FormBuffer]
    by (simp add: post_def opt_prop_def Buffer_from_base64_def Let_def) (simp add: provider_def)
  then show ?thesis
    by (simp add: transcribe_handler_def rest_handler_def post_def transcription_failed_def
        json_response_def err_obj_def)
qed

section \<open>The speech relay\<close>

text \<open>
  Claim C7, as the code has it: for every POST request to a speech handler whose body
  is an object (\<open>{ text }\<close>), once the provider has answered: on a success status the
  handler returns the raw audio bytes with status 200 and content type \<open>audio/mpeg\<close>;
  on a failure status whose body parses as JSON it returns status 500 with the JSON
  body \<open>{ error: payload }\<close>; on a failure status whose body is not JSON it returns
  status 500 with the fixed \<open>{ error: 'Voice failed' }\<close>. The serverless handler and the
  route of the local server answer alike.
\<close>

theorem C7_speech_relay:
  assumes "req_method req = ''POST''"
    and "\<not> nullish (req_body req)"
    and "fetch p (speak_request e (opt_prop (req_body req) ''text'')) = Inr response"
  shows "speak_handler e p req =
           (if r_ok response then audio_response (r_arrayBuffer response)
            else case r_json response of
                   Inr err \<Rightarrow> json_response 500 [] (JObj [(''error'', err)])
                 | Inl ex \<Rightarrow> json_response 500 [] (JObj [(''error'', JStr ''Voice failed'')]),
            [Fetch (speak_request e (opt_prop (req_body req) ''text''))])
       \<and> express_speak e p req = speak_handler e p req
       \<and> audio_response (r_arrayBuffer response) =
           \<lparr>res_status = 200, res_headers = [(''Content-Type'', ''audio/mpeg'')],
            res_body = Buffer (r_arrayBuffer response)\<rparr>"
  using assms(1) speak_try_submits [OF assms(2,3)]
  by (simp add: speak_handler_def express_speak_def audio_response_def voice_failed_def err_obj_def
      split: sum.splits)

theorem C7_speech_relay_witness:
  "speak_handler no_env (provider (Inr (plain_answer 200 ''ID3'')) NoMatch)
     (post (JObj [(''text'', JStr ''Dia duit'')])) =
     (audio_response [73, 68, 51], [Fetch (speak_request no_env (JStr ''Dia duit''))])
   \<and> speak_handler no_env
        (provider (Inr (json_answer 401 (JObj [(''detail'', JStr ''invalid_api_key'')]))) NoMatch)
        (post (JObj [(''text'', JStr ''Dia duit'')])) =
     (json_response 500 [] (JObj [(''error'', JObj [(''detail'', JStr ''invalid_api_key'')])]),
      [Fetch (speak_request no_env (JStr ''Dia duit''))])"
proof
  let ?req = "post (JObj [(''text'', JStr ''Dia duit'')])"
  have m: "req_method ?req = ''POST''" by (simp add: post_def)
  have b: "\<not> nullish (req_body ?req)" by (simp add: post_def nullish_def)
  have t: "opt_prop (req_body ?req) ''text'' = JStr ''Dia duit''"
    by (simp add: post_def opt_prop_def)
  {
    let ?r = "plain_answer 200 ''ID3''"
    let ?p = "provider (Inr ?r) NoMatch"
    have f: "fetch ?p (speak_request no_env (opt_prop (req_body ?req) ''text'')) = Inr ?r"
      by (simp add: provider_def)
    have o: "r_ok ?r" by (simp add: r_ok_def plain_answer_def)
    have a: "r_arrayBuffer ?r = [73, 68, 51]" by (simp add: plain_answer_def)
    from C7_speech_relay [OF m b f, THEN conjunct1]
    show "speak_handler no_env ?p ?req =
       (audio_response [73, 68, 51], [Fetch (speak_request no_env (JStr ''Dia duit''))])"
      unfolding t a using o by simp
  }
  {
    let ?r = "json_answer 401 (JObj [(''detail'', JStr ''invalid_api_key'')])"
    let ?p = "provider (Inr ?r) NoMatch"
    have f: "fetch ?p (speak_request no_env (opt_prop (req_body ?req) ''text'')) = Inr ?r"
      by (simp add: provider_def)
    have o: "\<not> r_ok ?r" by (simp add: r_ok_def json_answer_def)
    have j: "r_json ?r = Inr (JObj [(''detail'', JStr ''invalid_api_key'')])"
      by (simp add: json_answer_def)
    from C7_speech_relay [OF m b f, THEN conjunct1]
    show "speak_handler no_env ?p ?req =
       (json_response 500 [] (JObj [(''error'', JObj [(''detail'', JStr ''invalid_api_key'')])]),
        [Fetch (speak_request no_env (JStr ''Dia duit''))])"
      unfolding t j using o by simp
  }
qed

text \<open>Claim C7 as stated fails where the provider's error body is not JSON: the
  handler's body is the fixed message, without the provider's error detail.\<close>

theorem C7_plain_error_counterexample:
  "\<not> r_ok (plain_answer 502 ''Bad Gateway'')
   \<and> speak_handler no_env (provider (Inr (plain_answer 502 ''Bad Gateway'')) NoMatch)
        (post (JObj [(''text'', JStr ''Dia duit'')])) =
      (json_response 500 [] (JObj [(''error'', JStr ''Voice failed'')]),
       [Fetch (speak_request no_env (JStr ''Dia duit''))])"
  by (simp add: speak_handler_def speak_try_def destructure_def nullish_def post_def provider_def
      plain_answer_def r_ok_def voice_failed_def err_obj_def)

section \<open>One turn at a time\<close>

lemma send_loading: "loading st \<Longrightarrow> send prompt t st = st"
  by (simp add: send_def Let_def)

lemma serialized_initial: "serialized initial"
  by (simp add: serialized_def initial_def)

lemma callClaude_flags:
  "loading (callClaude prompt m st) \<and> in_flight (callClaude prompt m st) = Suc (in_flight st)
   \<and> started (callClaude prompt m st) = started st"
  by (simp add: callClaude_def Let_def)

lemma on_data_flags:
  "in_flight (snd (on_data parse data st)) = in_flight st
   \<and> started (snd (on_data parse data st)) = started st"
  by (simp add: on_data_def Let_def split: sum.splits)

lemma settle_flags:
  "\<not> loading (settle parse out st) \<and> in_flight (settle parse out st) = in_flight st - 1
   \<and> started (settle parse out st) = started st"
proof (cases out)
  case (Rejected ex)
  then show ?thesis by (simp add: settle_def)
next
  case (Resolved r)
  show ?thesis
  proof (cases r)
    case (Inl ex)
    with Resolved show ?thesis by (simp add: settle_def)
  next
    case (Inr data)
    obtain x st' where od: "on_data parse data st = (x, st')"
      by (cases "on_data parse data st")
    with on_data_flags [of parse data st]
    have "in_flight st' = in_flight st" "started st' = started st" by simp_all
    with Resolved Inr od show ?thesis by (cases x) (simp_all add: settle_def)
  qed
qed

text \<open>Every enabled event keeps the flag and the count of pending calls in step.\<close>

lemma step_serialized:
  assumes "serialized st" and "enabled ev st"
  shows "serialized (step prompt parse ev st)"
proof (cases ev)
  case (Send t)
  show ?thesis
  proof (cases "\<not> truthy (or_else t (JStr (trim (input st)))) \<or> loading st")
    case True
    then have "send prompt t st = st" by (auto simp: send_def Let_def)
    with Send assms show ?thesis by simp
  next
    case False
    with Send assms show ?thesis
      by (simp add: send_def Let_def serialized_def callClaude_flags stopSpeaking_def)
  qed
next
  case (Settle out)
  with assms show ?thesis
    by (auto simp: serialized_def settle_flags split: if_splits)
next
  case Start
  with assms show ?thesis
    by (auto simp: serialized_def callClaude_flags split: if_splits)
qed (use assms in \<open>auto simp: serialized_def\<close>)

lemma run_events_serialized:
  "serialized st \<Longrightarrow> run_events prompt parse evs st = Some st' \<Longrightarrow> serialized st'"
proof (induction evs arbitrary: st)
  case Nil
  then show ?case by simp
next
  case (Cons ev evs)
  from Cons.prems(2) have en: "enabled ev st"
    and r: "run_events prompt parse evs (step prompt parse ev st) = Some st'"
    by (auto split: if_splits)
  from step_serialized [OF Cons.prems(1) en] have "serialized (step prompt parse ev st)" .
  from Cons.IH [OF this r] show ?case .
qed

text \<open>
  Claim C8: while the loading flag is set, \<open>send\<close> changes nothing: no message is added,
  the input is kept, no chat call is issued. In every state the client reaches from its
  initial state by a run of events, at most one chat call is pending, and one is pending
  exactly when the flag is set.
\<close>

theorem C8_one_turn_in_flight:
  "(loading st \<longrightarrow> send prompt t st = st)
   \<and> (run_events prompt parse evs initial = Some st \<longrightarrow>
        in_flight st \<le> 1 \<and> (loading st \<longleftrightarrow> in_flight st = 1))"
  using run_events_serialized [OF serialized_initial, of prompt parse evs st] send_loading
  by (auto simp: serialized_def split: if_splits)

theorem C8_one_turn_in_flight_witness:
  "run_events ''You are Finbar'' (\<lambda>s. Inl (SyntaxError ''Unexpected token''))
     [TypePassword ''luke123'', Unlock, Start, TypeInput ''Dia duit'', Send JUndefined] initial =
   Some (callClaude ''You are Finbar'' JNull
           (initial\<lparr>password := ''luke123'', authenticated := True, started := True\<rparr>)
           \<lparr>input := ''Dia duit''\<rparr>)
   \<and> in_flight (callClaude ''You are Finbar'' JNull
           (initial\<lparr>password := ''luke123'', authenticated := True, started := True\<rparr>)
           \<lparr>input := ''Dia duit''\<rparr>) \<le> 1
   \<and> length (chat_calls (callClaude ''You are Finbar'' JNull
           (initial\<lparr>password := ''luke123'', authenticated := True, started := True\<rparr>)
           \<lparr>input := ''Dia duit''\<rparr>)) = 1"
proof -
  let ?parse = "\<lambda>s::string. Inl (SyntaxError ''Unexpected token'') :: js_error + jsval"
  let ?st0 = "callClaude ''You are Finbar'' JNull
               (initial\<lparr>password := ''luke123'', authenticated := True, started := True\<rparr>)"
  let ?st = "?st0\<lparr>input := ''Dia duit''\<rparr>"
  have l: "loading ?st" by (simp add: callClaude_def Let_def)
  have s: "send ''You are Finbar'' JUndefined ?st = ?st"
    using C8_one_turn_in_flight [of ?st "''You are Finbar''" JUndefined ?parse "[]"] l by blast
  have a: "authenticated ?st0 \<and> started ?st0"
    by (simp add: callClaude_def Let_def)
  have r: "run_events ''You are Finbar'' ?parse
             [TypePassword ''luke123'', Unlock, Start, TypeInput ''Dia duit'', Send JUndefined] initial
           = Some ?st"
  proof -
    have i: "\<not> authenticated initial \<and> \<not> started initial"
      by (simp add: initial_def)
    show ?thesis using a i by (simp add: s)
  qed
  from C8_one_turn_in_flight [of ?st "''You are Finbar''" JUndefined ?parse
      "[TypePassword ''luke123'', Unlock, Start, TypeInput ''Dia duit'', Send JUndefined]"] r
  have "in_flight ?st \<le> 1" by blast
  moreover have "length (chat_calls ?st) = 1"
    by (simp add: callClaude_def Let_def initial_def)
  ultimately show ?thesis using r by blast
qed

section \<open>Reading the model's reply\<close>






end
